theory Spec2Isabelle
  imports Main
begin

section \<open>Roborock scene selector and scene trigger\<close>

text \<open>
  A shallow embedding of \<^verbatim>\<open>custom_components/roborock/scene_trigger.py\<close>: the select
  entity \<^verbatim>\<open>RoborockSceneSelectEntity\<close> and the button entity
  \<^verbatim>\<open>RoborockSceneTriggerButton\<close>.

  The two entities share one mutable object, the coordinator, and talk to one remote
  collaborator, the cloud API. Both are made explicit: every method takes the
  coordinator (and the entity it belongs to) as a value and returns the updated ones,
  and it takes the cloud API as a pair of functions that give, for the arguments of a
  call, what that call answers at the time the method runs (a value, or the exception
  it raises). Everything a method does to the outside world (remote calls, log records,
  state writes of the host) is returned as the list of events in program order.
\<close>

subsection \<open>Data\<close>

type_synonym device_id = string
type_synonym user_data = string

text \<open>
  Exceptions. \<open>AttributeError\<close> is what reading a missing attribute of the
  coordinator raises. \<open>RemoteError\<close> stands for whatever exception derived from
  Python's \<^verbatim>\<open>Exception\<close> the cloud client raises, told apart by its payload.
  \<open>CancelledError\<close> is \<^verbatim>\<open>asyncio.CancelledError\<close>, what an awaited call raises
  when its task is cancelled: it derives from \<^verbatim>\<open>BaseException\<close> only.
\<close>

datatype exn = AttributeError | RemoteError string | CancelledError

text \<open>
  \<^verbatim>\<open>isinstance(err, Exception)\<close>: whether a handler \<^verbatim>\<open>except Exception\<close> catches the
  exception.
\<close>

fun is_exception :: "exn \<Rightarrow> bool" where
  "is_exception AttributeError = True"
| "is_exception (RemoteError msg) = True"
| "is_exception CancelledError = False"

text \<open>
  Modelled from the spec: the scene class (\<^verbatim>\<open>HomeDataScene\<close>) is declared outside this
  file. A scene has an identifier and a name; the identifier is the integer that
  \<^verbatim>\<open>execute_scene\<close> takes, the name is a string that need not be unique. On such an
  identifier the conversion \<^verbatim>\<open>int(scene_id)\<close> of the source is the identity. The fields
  are \<^verbatim>\<open>id\<close> and \<^verbatim>\<open>name\<close> in the source.
\<close>

record scene =
  scene_id :: int
  scene_name :: string

text \<open>
  The coordinator: the credentials it passes to every remote call, and the attribute
  \<^verbatim>\<open>selected_scenes\<close>, which may be missing (\<open>None\<close>) and otherwise is a dictionary
  from device ids to a name or Python's \<^verbatim>\<open>None\<close>.
\<close>

record coordinator =
  user_data :: user_data
  selected_scenes :: "(device_id \<rightharpoonup> string option) option"

record cloud_api =
  get_scenes :: "user_data \<Rightarrow> device_id \<Rightarrow> exn + scene list"
  execute_scene :: "user_data \<Rightarrow> int \<Rightarrow> exn + unit"

datatype log_level = INFO | WARNING | ERROR

datatype log_arg = ArgErr exn | ArgId int

text \<open>
  A log record carries its level, the format string, the arguments and whether
  \<^verbatim>\<open>exc_info\<close> was set.
\<close>

datatype event =
    GetScenes user_data device_id
  | ExecuteScene user_data int
  | Log log_level string "log_arg list" bool
  | SuperAddedToHass
  | WriteHaState

record scene_select =
  sel_unique_id :: string
  sel_device_id :: device_id
  scenes :: "scene list"
  selected_scene_name :: "string option"
  attr_options :: "string list"
  sel_attr_name :: string

record trigger_button =
  btn_unique_id :: string
  btn_device_id :: device_id
  btn_attr_name :: string

subsection \<open>Python truthiness\<close>

text \<open>\<^verbatim>\<open>if scene_name:\<close> on a \<^verbatim>\<open>str | None\<close>: false for \<^verbatim>\<open>None\<close> and for the empty string.\<close>

fun truthy_name :: "string option \<Rightarrow> bool" where
  "truthy_name None = False"
| "truthy_name (Some s) = (s \<noteq> [])"

text \<open>\<^verbatim>\<open>if scene_id:\<close> on an integer or \<^verbatim>\<open>None\<close>: false for \<^verbatim>\<open>None\<close> and for 0.\<close>

fun truthy_id :: "int option \<Rightarrow> bool" where
  "truthy_id None = False"
| "truthy_id (Some i) = (i \<noteq> 0)"

subsection \<open>The scene selector\<close>

text \<open>
  \<^verbatim>\<open>__init__\<close>: the fields start empty, and the coordinator gets an empty
  \<^verbatim>\<open>selected_scenes\<close> when it has none (\<^verbatim>\<open>hasattr\<close>). The device information goes to
  the base class only and is left out.
\<close>

definition scene_select_init ::
  "string \<Rightarrow> device_id \<Rightarrow> coordinator \<Rightarrow> scene_select \<times> coordinator" where
  "scene_select_init unique_id dev c =
     (\<lparr>sel_unique_id = unique_id, sel_device_id = dev, scenes = [],
       selected_scene_name = None, attr_options = [],
       sel_attr_name = ''Selected Scene''\<rparr>,
      (case selected_scenes c of
         None \<Rightarrow> c\<lparr>selected_scenes := Some Map.empty\<rparr>
       | Some m \<Rightarrow> c))"

text \<open>
  \<^verbatim>\<open>_fetch_scenes\<close>. The remote call comes first, and its exception leaves the method
  at once. The fields of the entity are assigned before the dictionary of the
  coordinator is written, so they keep their new values when that write raises.
\<close>

definition fetch_scenes ::
  "cloud_api \<Rightarrow> coordinator \<Rightarrow> scene_select \<Rightarrow>
     (exn + unit) \<times> coordinator \<times> scene_select \<times> event list" where
  "fetch_scenes api c e =
     (case get_scenes api (user_data c) (sel_device_id e) of
        Inl err \<Rightarrow> (Inl err, c, e, [GetScenes (user_data c) (sel_device_id e)])
      | Inr scs \<Rightarrow>
          (let e1 = e\<lparr>scenes := scs, attr_options := map scene_name scs\<rparr>;
               e2 = (case scs of
                       [] \<Rightarrow> e1
                     | s # rest \<Rightarrow> e1\<lparr>selected_scene_name := Some (scene_name s)\<rparr>)
           in case selected_scenes c of
                None \<Rightarrow>
                  (Inl AttributeError, c, e2, [GetScenes (user_data c) (sel_device_id e)])
              | Some m \<Rightarrow>
                  (Inr (),
                   c\<lparr>selected_scenes :=
                       Some (m(sel_device_id e \<mapsto> selected_scene_name e2))\<rparr>,
                   e2,
                   [GetScenes (user_data c) (sel_device_id e), WriteHaState])))"

text \<open>
  \<^verbatim>\<open>async_added_to_hass\<close>: the base class's hook (the host's, taken to return), then
  the fetch; nothing is caught.
\<close>

definition async_added_to_hass ::
  "cloud_api \<Rightarrow> coordinator \<Rightarrow> scene_select \<Rightarrow>
     (exn + unit) \<times> coordinator \<times> scene_select \<times> event list" where
  "async_added_to_hass api c e =
     (case fetch_scenes api c e of
        (r, c', e', evs) \<Rightarrow> (r, c', e', SuperAddedToHass # evs))"

text \<open>\<^verbatim>\<open>async_select_option\<close>: no check of the option against \<open>attr_options\<close>.\<close>

definition async_select_option ::
  "string \<Rightarrow> coordinator \<Rightarrow> scene_select \<Rightarrow>
     (exn + unit) \<times> coordinator \<times> scene_select \<times> event list" where
  "async_select_option option c e =
     (let e1 = e\<lparr>selected_scene_name := Some option\<rparr>
      in case selected_scenes c of
           None \<Rightarrow> (Inl AttributeError, c, e1, [])
         | Some m \<Rightarrow>
             (Inr (),
              c\<lparr>selected_scenes := Some (m(sel_device_id e \<mapsto> Some option))\<rparr>,
              e1, [WriteHaState]))"

definition current_option :: "scene_select \<Rightarrow> string option" where
  "current_option e = selected_scene_name e"

text \<open>
  The linear scan of both \<^verbatim>\<open>get_selected_scene_id\<close> and \<^verbatim>\<open>async_press\<close>: the id
  of the first scene whose name is the wanted one, \<open>None\<close> when the loop ends without
  a match.
\<close>

fun scan_scenes :: "scene list \<Rightarrow> string \<Rightarrow> int option" where
  "scan_scenes [] n = None"
| "scan_scenes (s # ss) n =
     (if scene_name s = n then Some (scene_id s) else scan_scenes ss n)"

text \<open>
  \<^verbatim>\<open>get_selected_scene_id\<close>: a selection of \<^verbatim>\<open>None\<close> equals no scene's name.
\<close>

definition get_selected_scene_id :: "scene_select \<Rightarrow> int option" where
  "get_selected_scene_id e =
     (case selected_scene_name e of
        None \<Rightarrow> None
      | Some n \<Rightarrow> scan_scenes (scenes e) n)"

subsection \<open>The scene trigger\<close>

definition trigger_button_init :: "string \<Rightarrow> device_id \<Rightarrow> trigger_button" where
  "trigger_button_init unique_id dev =
     \<lparr>btn_unique_id = unique_id, btn_device_id = dev, btn_attr_name = ''Trigger Scene''\<rparr>"

text \<open>
  The first lines of \<^verbatim>\<open>async_press\<close>: \<^verbatim>\<open>hasattr\<close>, then \<^verbatim>\<open>dict.get\<close>, which
  gives \<^verbatim>\<open>None\<close> for a missing key.
\<close>

definition stored_selection :: "coordinator \<Rightarrow> device_id \<Rightarrow> string option" where
  "stored_selection c dev =
     (case selected_scenes c of
        None \<Rightarrow> None
      | Some m \<Rightarrow> (case m dev of None \<Rightarrow> None | Some v \<Rightarrow> v))"

text \<open>
  The resolution phase of \<^verbatim>\<open>async_press\<close>: the scene id found (or \<open>None\<close>) and the
  events of the phase. The handler \<^verbatim>\<open>except Exception\<close> logs and swallows an
  exception of the fetch that derives from \<^verbatim>\<open>Exception\<close>; any other exception
  leaves the phase, and the press with it, unlogged.
\<close>

definition resolve_scene ::
  "cloud_api \<Rightarrow> coordinator \<Rightarrow> trigger_button \<Rightarrow> (exn + int option) \<times> event list" where
  "resolve_scene api c b =
     (case stored_selection c (btn_device_id b) of
        None \<Rightarrow> (Inr None, [])
      | Some n \<Rightarrow>
          if truthy_name (Some n) then
            (case get_scenes api (user_data c) (btn_device_id b) of
               Inr scs \<Rightarrow>
                 (Inr (scan_scenes scs n), [GetScenes (user_data c) (btn_device_id b)])
             | Inl err \<Rightarrow>
                 if is_exception err then
                   (Inr None,
                    [GetScenes (user_data c) (btn_device_id b),
                     Log ERROR ''Error fetching scenes before execution: %s''
                       [ArgErr err] False])
                 else (Inl err, [GetScenes (user_data c) (btn_device_id b)]))
          else (Inr None, []))"

text \<open>
  \<^verbatim>\<open>async_press\<close>. The coordinator and the button are read only. The result is what
  the caller sees: \<open>Inr ()\<close> for a normal return, \<open>Inl\<close> for the exception raised.
  The test \<^verbatim>\<open>if scene_id:\<close> fails both when the scan found nothing and when the id
  found is falsy; either way the \<^verbatim>\<open>else\<close> branch logs the warning. The handler
  around the execution logs and re-raises an exception derived from \<^verbatim>\<open>Exception\<close>;
  any other exception passes it by.
\<close>

definition async_press ::
  "cloud_api \<Rightarrow> coordinator \<Rightarrow> trigger_button \<Rightarrow> (exn + unit) \<times> event list" where
  "async_press api c b =
     (case resolve_scene api c b of
        (Inl err, evs) \<Rightarrow> (Inl err, evs)
      | (Inr sid, evs) \<Rightarrow>
          (case sid of
             None \<Rightarrow>
               (Inr (), evs @ [Log WARNING ''No scene selected to execute.'' [] False])
           | Some i \<Rightarrow>
               if truthy_id (Some i) then
                 (case execute_scene api (user_data c) i of
                    Inr u \<Rightarrow>
                      (Inr (),
                       evs @ [ExecuteScene (user_data c) i,
                              Log INFO ''Executed Roborock scene: %s'' [ArgId i] False])
                  | Inl err \<Rightarrow>
                      if is_exception err then
                        (Inl err,
                         evs @ [ExecuteScene (user_data c) i,
                                Log ERROR ''Error executing scene %s: %s''
                                  [ArgId i, ArgErr err] True])
                      else (Inl err, evs @ [ExecuteScene (user_data c) i]))
               else
                 (Inr (),
                  evs @ [Log WARNING ''No scene selected to execute.'' [] False])))"

subsection \<open>Reading event lists\<close>

text \<open>The scene ids that \<^verbatim>\<open>execute_scene\<close> was called with, in order.\<close>

fun executed_ids :: "event list \<Rightarrow> int list" where
  "executed_ids [] = []"
| "executed_ids (ExecuteScene ud i # evs) = i # executed_ids evs"
| "executed_ids (ev # evs) = executed_ids evs"

subsection \<open>Example inputs\<close>

text \<open>
  Concrete scenes, cloud answers, coordinators and entities, on which the theorems
  below are instantiated: a device \<open>''vacuum''\<close> with the scenes A, B and C, a cloud
  that answers with a fixed list, one whose fetch raises and one whose execution raises
  (an error of the cloud client, or a cancellation).
\<close>

definition abc_scenes :: "scene list" where
  "abc_scenes =
     [\<lparr>scene_id = 1, scene_name = ''A''\<rparr>,
      \<lparr>scene_id = 2, scene_name = ''B''\<rparr>,
      \<lparr>scene_id = 3, scene_name = ''C''\<rparr>]"

definition fixed_api :: "scene list \<Rightarrow> cloud_api" where
  "fixed_api scs = \<lparr>get_scenes = (\<lambda>ud dev. Inr scs), execute_scene = (\<lambda>ud i. Inr ())\<rparr>"

definition failing_fetch_api :: "exn \<Rightarrow> cloud_api" where
  "failing_fetch_api err =
     \<lparr>get_scenes = (\<lambda>ud dev. Inl err), execute_scene = (\<lambda>ud i. Inr ())\<rparr>"

definition failing_execute_api :: "scene list \<Rightarrow> exn \<Rightarrow> cloud_api" where
  "failing_execute_api scs err =
     \<lparr>get_scenes = (\<lambda>ud dev. Inr scs), execute_scene = (\<lambda>ud i. Inl err)\<rparr>"

definition cancelled_fetch_api :: cloud_api where
  "cancelled_fetch_api = failing_fetch_api CancelledError"

definition cancelled_execute_api :: "scene list \<Rightarrow> cloud_api" where
  "cancelled_execute_api scs = failing_execute_api scs CancelledError"

definition bare_coordinator :: coordinator where
  "bare_coordinator = \<lparr>user_data = ''user'', selected_scenes = None\<rparr>"

definition coordinator_with :: "string option \<Rightarrow> coordinator" where
  "coordinator_with sel =
     \<lparr>user_data = ''user'', selected_scenes = Some [''vacuum'' \<mapsto> sel]\<rparr>"

definition new_select :: scene_select where
  "new_select = fst (scene_select_init ''vacuum_selected_scene'' ''vacuum'' bare_coordinator)"

definition new_coordinator :: coordinator where
  "new_coordinator = snd (scene_select_init ''vacuum_selected_scene'' ''vacuum'' bare_coordinator)"

definition new_button :: trigger_button where
  "new_button = trigger_button_init ''vacuum_trigger_scene'' ''vacuum''"

definition abc_coordinator :: coordinator where
  "abc_coordinator = fst (snd (fetch_scenes (fixed_api abc_scenes) new_coordinator new_select))"

definition abc_select :: scene_select where
  "abc_select = fst (snd (snd (fetch_scenes (fixed_api abc_scenes) new_coordinator new_select)))"

section \<open>Properties\<close>

subsection \<open>Auxiliary facts\<close>

lemmas example_defs =
  abc_scenes_def fixed_api_def failing_fetch_api_def failing_execute_api_def
  cancelled_fetch_api_def cancelled_execute_api_def
  bare_coordinator_def coordinator_with_def new_select_def new_coordinator_def
  new_button_def scene_select_init_def trigger_button_init_def

text \<open>The constructor of the selector leaves a coordinator that has the dictionary.\<close>

lemma init_has_selected_scenes:
  "\<exists>m. selected_scenes (snd (scene_select_init uid dev c)) = Some m"
  by (cases "selected_scenes c") (simp_all add: scene_select_init_def)

lemma init_entity:
  "fst (scene_select_init uid dev c) =
     \<lparr>sel_unique_id = uid, sel_device_id = dev, scenes = [],
      selected_scene_name = None, attr_options = [],
      sel_attr_name = ''Selected Scene''\<rparr>"
  by (simp add: scene_select_init_def)

text \<open>Fetching and selecting keep the dictionary once it is there; a press changes nothing.\<close>

lemma fetch_scenes_keeps_dictionary:
  "selected_scenes c = Some m \<Longrightarrow>
     \<exists>m'. selected_scenes (fst (snd (fetch_scenes api c e))) = Some m'"
  by (simp add: fetch_scenes_def Let_def split: sum.splits)

lemma select_option_keeps_dictionary:
  "selected_scenes c = Some m \<Longrightarrow>
     \<exists>m'. selected_scenes (fst (snd (async_select_option opt c e))) = Some m'"
  by (simp add: async_select_option_def)

text \<open>The scan: no result exactly when no scene has the name; otherwise the first match.\<close>

lemma scan_scenes_None_iff: "scan_scenes scs n = None \<longleftrightarrow> n \<notin> scene_name ` set scs"
  by (induction scs) auto

lemma scan_scenes_first:
  "scene_name s \<notin> scene_name ` set pre \<Longrightarrow>
     scan_scenes (pre @ s # rest) (scene_name s) = Some (scene_id s)"
  by (induction pre) auto

lemma stored_selection_falsy:
  "\<not> truthy_name (stored_selection c dev) \<longleftrightarrow>
     selected_scenes c = None \<or>
     (\<exists>m. selected_scenes c = Some m \<and>
          (m dev = None \<or> m dev = Some None \<or> m dev = Some (Some [])))"
proof (cases "selected_scenes c")
  case None
  then show ?thesis by (simp add: stored_selection_def)
next
  case (Some m)
  show ?thesis
  proof (cases "m dev")
    case None
    with Some show ?thesis by (simp add: stored_selection_def)
  next
    case inner: (Some v)
    with Some show ?thesis by (cases v) (simp_all add: stored_selection_def)
  qed
qed

lemma resolve_scene_falsy:
  "\<not> truthy_name (stored_selection c (btn_device_id b)) \<Longrightarrow>
     resolve_scene api c b = (Inr None, [])"
  by (cases "stored_selection c (btn_device_id b)") (simp_all add: resolve_scene_def)

lemma resolve_scene_fetched:
  "stored_selection c (btn_device_id b) = Some n \<Longrightarrow> n \<noteq> [] \<Longrightarrow>
   get_scenes api (user_data c) (btn_device_id b) = Inr scs \<Longrightarrow>
   resolve_scene api c b =
     (Inr (scan_scenes scs n), [GetScenes (user_data c) (btn_device_id b)])"
  by (simp add: resolve_scene_def)

lemma resolve_scene_failed:
  "stored_selection c (btn_device_id b) = Some n \<Longrightarrow> n \<noteq> [] \<Longrightarrow>
   get_scenes api (user_data c) (btn_device_id b) = Inl err \<Longrightarrow> is_exception err \<Longrightarrow>
   resolve_scene api c b =
     (Inr None, [GetScenes (user_data c) (btn_device_id b),
                 Log ERROR ''Error fetching scenes before execution: %s'' [ArgErr err] False])"
  by (simp add: resolve_scene_def)

lemma resolve_scene_uncaught:
  "stored_selection c (btn_device_id b) = Some n \<Longrightarrow> n \<noteq> [] \<Longrightarrow>
   get_scenes api (user_data c) (btn_device_id b) = Inl err \<Longrightarrow> \<not> is_exception err \<Longrightarrow>
   resolve_scene api c b = (Inl err, [GetScenes (user_data c) (btn_device_id b)])"
  by (simp add: resolve_scene_def)

lemma resolve_scene_cases:
  obtains (skipped) "\<not> truthy_name (stored_selection c (btn_device_id b))"
      "resolve_scene api c b = (Inr None, [])"
  | (fetched) n scs where "stored_selection c (btn_device_id b) = Some n" "n \<noteq> []"
      "get_scenes api (user_data c) (btn_device_id b) = Inr scs"
      "resolve_scene api c b =
         (Inr (scan_scenes scs n), [GetScenes (user_data c) (btn_device_id b)])"
  | (failed) n err where "stored_selection c (btn_device_id b) = Some n" "n \<noteq> []"
      "get_scenes api (user_data c) (btn_device_id b) = Inl err" "is_exception err"
      "resolve_scene api c b =
         (Inr None,
          [GetScenes (user_data c) (btn_device_id b),
           Log ERROR ''Error fetching scenes before execution: %s'' [ArgErr err] False])"
  | (uncaught) n err where "stored_selection c (btn_device_id b) = Some n" "n \<noteq> []"
      "get_scenes api (user_data c) (btn_device_id b) = Inl err" "\<not> is_exception err"
      "resolve_scene api c b = (Inl err, [GetScenes (user_data c) (btn_device_id b)])"
proof (cases "stored_selection c (btn_device_id b)")
  case None
  then show ?thesis using skipped resolve_scene_falsy [of c b api] by simp
next
  case (Some n)
  show ?thesis
  proof (cases "n = []")
    case True
    with Some show ?thesis using skipped resolve_scene_falsy [of c b api] by simp
  next
    case False
    show ?thesis
    proof (cases "get_scenes api (user_data c) (btn_device_id b)")
      case (Inl err)
      show ?thesis
      proof (cases "is_exception err")
        case True
        with Some False Inl show ?thesis using failed resolve_scene_failed by blast
      next
        case no: False
        with Some False Inl show ?thesis using uncaught resolve_scene_uncaught by blast
      qed
    next
      case (Inr scs)
      with Some False show ?thesis using fetched resolve_scene_fetched by blast
    qed
  qed
qed

text \<open>The resolution phase never calls \<^verbatim>\<open>execute_scene\<close>.\<close>

lemma resolve_scene_no_execute:
  "ExecuteScene ud i \<notin> set (snd (resolve_scene api c b))"
  by (cases rule: resolve_scene_cases [of c b api]) simp_all

text \<open>The press when the resolution phase produced a truthy id.\<close>

lemma async_press_resolved:
  "resolve_scene api c b = (Inr (Some i), evs) \<Longrightarrow> i \<noteq> 0 \<Longrightarrow>
   async_press api c b =
     (case execute_scene api (user_data c) i of
        Inr u \<Rightarrow> (Inr (), evs @ [ExecuteScene (user_data c) i,
                    Log INFO ''Executed Roborock scene: %s'' [ArgId i] False])
      | Inl err \<Rightarrow>
          (Inl err,
           evs @ ExecuteScene (user_data c) i #
             (if is_exception err
              then [Log ERROR ''Error executing scene %s: %s'' [ArgId i, ArgErr err] True]
              else [])))"
  by (simp add: async_press_def split: sum.splits)

lemma async_press_unresolved:
  "resolve_scene api c b = (Inr sid, evs) \<Longrightarrow> \<not> truthy_id sid \<Longrightarrow>
   async_press api c b =
     (Inr (), evs @ [Log WARNING ''No scene selected to execute.'' [] False])"
  by (cases sid) (simp_all add: async_press_def)

lemma async_press_uncaught:
  "resolve_scene api c b = (Inl err, evs) \<Longrightarrow> async_press api c b = (Inl err, evs)"
  by (simp add: async_press_def)

lemma press_empty_fetch:
  assumes "get_scenes api (user_data c) (btn_device_id b) = Inr []"
  shows "fst (async_press api c b) = Inr () \<and> executed_ids (snd (async_press api c b)) = []"
proof (cases rule: resolve_scene_cases [of c b api])
  case skipped
  then show ?thesis using async_press_unresolved [of api c b None "[]"] by simp
next
  case (fetched n scs)
  with assms have "resolve_scene api c b =
      (Inr None, [GetScenes (user_data c) (btn_device_id b)])"
    by simp
  then show ?thesis using async_press_unresolved [of api c b None] by simp
next
  case (failed n err)
  with assms show ?thesis by simp
next
  case (uncaught n err)
  with assms show ?thesis by simp
qed

text \<open>
  With a name selected, the press fetches again and executes the id of the first scene
  of that name, when that id is not 0.
\<close>

lemma press_executes_first_match:
  assumes "stored_selection c (btn_device_id b) = Some n" and "n \<noteq> []"
    and "get_scenes api (user_data c) (btn_device_id b) = Inr (pre @ s # rest)"
    and "scene_name s = n" and "n \<notin> scene_name ` set pre"
    and "scene_id s \<noteq> 0"
  shows "snd (async_press api c b) =
           GetScenes (user_data c) (btn_device_id b) #
           ExecuteScene (user_data c) (scene_id s) #
           (case execute_scene api (user_data c) (scene_id s) of
              Inr u \<Rightarrow> [Log INFO ''Executed Roborock scene: %s'' [ArgId (scene_id s)] False]
            | Inl err \<Rightarrow>
                if is_exception err
                then [Log ERROR ''Error executing scene %s: %s''
                        [ArgId (scene_id s), ArgErr err] True]
                else [])"
proof -
  have "scan_scenes (pre @ s # rest) n = Some (scene_id s)"
    using assms(4,5) scan_scenes_first [of s pre rest] by simp
  then have "resolve_scene api c b =
      (Inr (Some (scene_id s)), [GetScenes (user_data c) (btn_device_id b)])"
    using resolve_scene_fetched [OF assms(1,2,3)] by simp
  from async_press_resolved [OF this assms(6)] show ?thesis
    by (simp split: sum.splits)
qed

subsection \<open>The claims\<close>

text \<open>
  Claim C1. When the fetch of the selector answers a non-empty list of scenes (the
  coordinator having its dictionary, as the constructor leaves it), \<^verbatim>\<open>_fetch_scenes\<close>
  returns normally, the options are the names of the scenes in the order fetched, the
  current option is the name of the first scene, and the dictionary maps the device
  to that name. For scenes named A, B, C the options are \<open>[A, B, C]\<close> and the
  selection is A.
\<close>

theorem fetch_scenes_default:
  assumes "get_scenes api (user_data c) (sel_device_id e) = Inr (s # rest)"
    and "selected_scenes c = Some m"
  shows "\<exists>c' e' evs m'.
           fetch_scenes api c e = (Inr (), c', e', evs) \<and>
           attr_options e' = map scene_name (s # rest) \<and>
           current_option e' = Some (scene_name s) \<and>
           selected_scenes c' = Some m' \<and>
           m' (sel_device_id e) = Some (Some (scene_name s))"
  using assms by (simp add: fetch_scenes_def current_option_def)

theorem fetch_scenes_default_witness:
  "get_scenes (fixed_api abc_scenes) (user_data new_coordinator) (sel_device_id new_select) =
     Inr abc_scenes \<and>
   selected_scenes new_coordinator = Some Map.empty \<and>
   (\<exists>c' e' evs m'.
      fetch_scenes (fixed_api abc_scenes) new_coordinator new_select = (Inr (), c', e', evs) \<and>
      attr_options e' = [''A'', ''B'', ''C''] \<and>
      current_option e' = Some ''A'' \<and>
      selected_scenes c' = Some m' \<and>
      m' ''vacuum'' = Some (Some ''A''))"
proof -
  have fetched: "get_scenes (fixed_api abc_scenes) (user_data new_coordinator)
      (sel_device_id new_select) =
      Inr (\<lparr>scene_id = 1, scene_name = ''A''\<rparr> #
           [\<lparr>scene_id = 2, scene_name = ''B''\<rparr>, \<lparr>scene_id = 3, scene_name = ''C''\<rparr>])"
    by (simp add: example_defs)
  have attr: "selected_scenes new_coordinator = Some Map.empty"
    by (simp add: example_defs)
  have dev: "sel_device_id new_select = ''vacuum''"
    by (simp add: example_defs)
  from fetch_scenes_default [OF fetched attr] fetched attr dev show ?thesis
    by (simp add: abc_scenes_def)
qed

text \<open>
  Claim C2. \<^verbatim>\<open>async_select_option\<close> takes any string, in the options or not: it
  returns normally, the current option is that string and the dictionary maps the
  device to it (the coordinator having its dictionary, as the constructor leaves it).
\<close>

theorem select_option_stores_verbatim:
  assumes "selected_scenes c = Some m"
  shows "\<exists>c' e' evs m'.
           async_select_option opt c e = (Inr (), c', e', evs) \<and>
           current_option e' = Some opt \<and>
           selected_scenes c' = Some m' \<and>
           m' (sel_device_id e) = Some (Some opt)"
  using assms by (simp add: async_select_option_def current_option_def)

theorem select_option_stores_verbatim_witness:
  "''Z'' \<notin> set (attr_options abc_select) \<and>
   selected_scenes abc_coordinator = Some [''vacuum'' \<mapsto> Some ''A''] \<and>
   (\<exists>c' e' evs m'.
      async_select_option ''Z'' abc_coordinator abc_select = (Inr (), c', e', evs) \<and>
      current_option e' = Some ''Z'' \<and>
      selected_scenes c' = Some m' \<and>
      m' ''vacuum'' = Some (Some ''Z''))"
proof -
  have opts: "''Z'' \<notin> set (attr_options abc_select)"
    by (simp add: abc_select_def fetch_scenes_def example_defs)
  have attr: "selected_scenes abc_coordinator = Some [''vacuum'' \<mapsto> Some ''A'']"
    by (simp add: abc_coordinator_def fetch_scenes_def example_defs)
  have dev: "sel_device_id abc_select = ''vacuum''"
    by (simp add: abc_select_def fetch_scenes_def example_defs)
  from select_option_stores_verbatim [OF attr, of "''Z''" abc_select] opts attr dev
  show ?thesis by simp
qed

text \<open>
  Claim C3. A press with a name selected fetches the scenes again and takes the id of
  the first scene of that name (\<open>press_executes_first_match\<close> above: that id is
  executed when it is not 0). The claim that the resolved id is always executed
  fails for the id 0: with B selected and the fetched list \<open>[{id: 0, name: B}]\<close> the
  scan finds the id 0, the test \<^verbatim>\<open>if scene_id:\<close> takes it for no id, and the press
  logs the warning without calling \<^verbatim>\<open>execute_scene\<close>.
\<close>

theorem press_falsy_id_not_executed:
  "scan_scenes [\<lparr>scene_id = 0, scene_name = ''B''\<rparr>] ''B'' = Some 0 \<and>
   async_press (fixed_api [\<lparr>scene_id = 0, scene_name = ''B''\<rparr>])
       (coordinator_with (Some ''B'')) new_button =
     (Inr (), [GetScenes ''user'' ''vacuum'',
               Log WARNING ''No scene selected to execute.'' [] False])"
  by (simp add: async_press_def resolve_scene_def stored_selection_def example_defs)

text \<open>
  Claim C4. A press without a selection for the device (the coordinator has no
  dictionary, the dictionary has no entry for the device, or the entry is \<^verbatim>\<open>None\<close>
  or the empty string) returns normally, and all it does is log one warning: no
  fetch of the scenes, no call of \<^verbatim>\<open>execute_scene\<close>.
\<close>

theorem press_without_selection:
  assumes "selected_scenes c = None \<or>
           (\<exists>m. selected_scenes c = Some m \<and>
              (m (btn_device_id b) = None \<or> m (btn_device_id b) = Some None \<or>
               m (btn_device_id b) = Some (Some [])))"
  shows "async_press api c b =
           (Inr (), [Log WARNING ''No scene selected to execute.'' [] False])"
proof -
  from assms have "\<not> truthy_name (stored_selection c (btn_device_id b))"
    by (simp only: stored_selection_falsy)
  then have "resolve_scene api c b = (Inr None, [])"
    by (rule resolve_scene_falsy)
  then show ?thesis
    using async_press_unresolved [of api c b None "[]"] by simp
qed

theorem press_without_selection_witness:
  "async_press (fixed_api abc_scenes) bare_coordinator new_button =
     (Inr (), [Log WARNING ''No scene selected to execute.'' [] False]) \<and>
   async_press (fixed_api abc_scenes) new_coordinator new_button =
     (Inr (), [Log WARNING ''No scene selected to execute.'' [] False]) \<and>
   async_press (fixed_api abc_scenes) (coordinator_with None) new_button =
     (Inr (), [Log WARNING ''No scene selected to execute.'' [] False]) \<and>
   async_press (fixed_api abc_scenes) (coordinator_with (Some [])) new_button =
     (Inr (), [Log WARNING ''No scene selected to execute.'' [] False])"
proof -
  have absent: "selected_scenes bare_coordinator = None"
    by (simp add: example_defs)
  have no_entry: "\<exists>m. selected_scenes new_coordinator = Some m \<and>
      (m (btn_device_id new_button) = None \<or> m (btn_device_id new_button) = Some None \<or>
       m (btn_device_id new_button) = Some (Some []))"
    by (simp add: example_defs)
  have none_entry: "\<exists>m. selected_scenes (coordinator_with None) = Some m \<and>
      (m (btn_device_id new_button) = None \<or> m (btn_device_id new_button) = Some None \<or>
       m (btn_device_id new_button) = Some (Some []))"
    by (simp add: example_defs)
  have empty_entry: "\<exists>m. selected_scenes (coordinator_with (Some [])) = Some m \<and>
      (m (btn_device_id new_button) = None \<or> m (btn_device_id new_button) = Some None \<or>
       m (btn_device_id new_button) = Some (Some []))"
    by (simp add: example_defs)
  show ?thesis
    using press_without_selection [of bare_coordinator new_button "fixed_api abc_scenes"]
      press_without_selection [of new_coordinator new_button "fixed_api abc_scenes"]
      press_without_selection [of "coordinator_with None" new_button "fixed_api abc_scenes"]
      press_without_selection [of "coordinator_with (Some [])" new_button "fixed_api abc_scenes"]
      absent no_entry none_entry empty_entry
    by blast
qed

text \<open>
  Claim C5, as stated, says that a press whose call of \<^verbatim>\<open>execute_scene\<close> raised
  logs the failure at level ERROR and re-raises. It fails for a cancellation: the
  handler is \<^verbatim>\<open>except Exception\<close>, and \<^verbatim>\<open>CancelledError\<close> passes it by, so the
  press raises it with no log record after the call.
\<close>

theorem press_cancelled_execute_not_logged:
  "execute_scene (cancelled_execute_api abc_scenes) ''user'' 2 = Inl CancelledError \<and>
   async_press (cancelled_execute_api abc_scenes) (coordinator_with (Some ''B'')) new_button =
     (Inl CancelledError, [GetScenes ''user'' ''vacuum'', ExecuteScene ''user'' 2])"
  by (simp add: async_press_def resolve_scene_def stored_selection_def example_defs)

text \<open>
  Claim C5, amended. When a press called \<^verbatim>\<open>execute_scene\<close> and that call raised,
  the press raises the same exception to its caller, and the call is the last thing it
  did but for the log: when the exception derives from \<^verbatim>\<open>Exception\<close> the press
  logged the failure at level ERROR (with the id, the exception and \<^verbatim>\<open>exc_info\<close>)
  before raising; any other exception is not logged.
\<close>

theorem press_reraises_execute_error:
  assumes "ExecuteScene ud i \<in> set (snd (async_press api c b))"
    and "execute_scene api ud i = Inl err"
  shows "fst (async_press api c b) = Inl err \<and>
         (\<exists>pre. snd (async_press api c b) =
            pre @ ExecuteScene ud i #
              (if is_exception err
               then [Log ERROR ''Error executing scene %s: %s'' [ArgId i, ArgErr err] True]
               else []))"
proof (cases "resolve_scene api c b")
  case (Pair r evs)
  have no_exec: "ExecuteScene ud i \<notin> set evs"
    using resolve_scene_no_execute [of ud i api c b] Pair by simp
  show ?thesis
  proof (cases r)
    case (Inl err')
    with Pair have "async_press api c b = (Inl err', evs)"
      by (simp add: async_press_uncaught)
    with assms(1) no_exec show ?thesis by simp
  next
    case (Inr sid)
    note resolved = Pair [unfolded Inr]
    show ?thesis
    proof (cases "truthy_id sid")
      case False
      with resolved have "async_press api c b =
          (Inr (), evs @ [Log WARNING ''No scene selected to execute.'' [] False])"
        by (rule async_press_unresolved)
      with assms(1) no_exec show ?thesis by simp
    next
      case True
      then obtain j where j: "sid = Some j" "j \<noteq> 0" by (cases sid) auto
      note press = async_press_resolved [OF resolved [unfolded j(1)] j(2)]
      from assms(1) no_exec press have same: "ud = user_data c \<and> i = j"
        by (auto split: sum.splits if_splits)
      with assms(2) press show ?thesis by simp
    qed
  qed
qed

theorem press_reraises_execute_error_witness:
  "ExecuteScene ''user'' 2 \<in> set (snd (async_press
       (failing_execute_api abc_scenes (RemoteError ''timeout''))
       (coordinator_with (Some ''B'')) new_button)) \<and>
   execute_scene (failing_execute_api abc_scenes (RemoteError ''timeout'')) ''user'' 2 =
     Inl (RemoteError ''timeout'') \<and>
   is_exception (RemoteError ''timeout'') \<and>
   fst (async_press (failing_execute_api abc_scenes (RemoteError ''timeout''))
       (coordinator_with (Some ''B'')) new_button) = Inl (RemoteError ''timeout'') \<and>
   (\<exists>pre. snd (async_press (failing_execute_api abc_scenes (RemoteError ''timeout''))
       (coordinator_with (Some ''B'')) new_button) =
      pre @ [ExecuteScene ''user'' 2,
             Log ERROR ''Error executing scene %s: %s''
               [ArgId 2, ArgErr (RemoteError ''timeout'')] True])"
proof -
  have called: "ExecuteScene ''user'' 2 \<in> set (snd (async_press
       (failing_execute_api abc_scenes (RemoteError ''timeout''))
       (coordinator_with (Some ''B'')) new_button))"
    by (simp add: async_press_def resolve_scene_def stored_selection_def example_defs)
  have raised: "execute_scene (failing_execute_api abc_scenes (RemoteError ''timeout''))
      ''user'' 2 = Inl (RemoteError ''timeout'')"
    by (simp add: example_defs)
  from press_reraises_execute_error [OF called raised] called raised show ?thesis
    by simp
qed

text \<open>
  Claim C6, as stated, says that a press whose call of \<^verbatim>\<open>get_scenes\<close> raised
  catches and logs the exception and lets none out. It fails for a cancellation: the
  handler is \<^verbatim>\<open>except Exception\<close>, and \<^verbatim>\<open>CancelledError\<close> passes it by, so the
  press raises it right after the fetch, with no log record.
\<close>

theorem press_cancelled_fetch_propagates:
  "get_scenes cancelled_fetch_api ''user'' ''vacuum'' = Inl CancelledError \<and>
   async_press cancelled_fetch_api (coordinator_with (Some ''B'')) new_button =
     (Inl CancelledError, [GetScenes ''user'' ''vacuum''])"
  by (simp add: async_press_def resolve_scene_def stored_selection_def example_defs)

text \<open>
  Claim C6, amended. When a press called \<^verbatim>\<open>get_scenes\<close> and that call raised an
  exception derived from \<^verbatim>\<open>Exception\<close>, the press returns normally; it logged the
  exception at level ERROR, then the warning, and never called \<^verbatim>\<open>execute_scene\<close>.
  Any other exception leaves the press as it is, unlogged, and \<^verbatim>\<open>execute_scene\<close> is
  not called either.
\<close>

theorem press_swallows_fetch_error:
  assumes "GetScenes ud dev \<in> set (snd (async_press api c b))"
    and "get_scenes api ud dev = Inl err"
  shows "async_press api c b =
           (if is_exception err then
              (Inr (),
               [GetScenes ud dev,
                Log ERROR ''Error fetching scenes before execution: %s'' [ArgErr err] False,
                Log WARNING ''No scene selected to execute.'' [] False])
            else (Inl err, [GetScenes ud dev]))"
proof (cases rule: resolve_scene_cases [of c b api])
  case skipped
  then have "async_press api c b =
      (Inr (), [] @ [Log WARNING ''No scene selected to execute.'' [] False])"
    using async_press_unresolved [of api c b None "[]"] by simp
  with assms(1) show ?thesis by simp
next
  case (fetched n scs)
  have "ud = user_data c \<and> dev = btn_device_id b"
  proof (cases "truthy_id (scan_scenes scs n)")
    case False
    with fetched(4) assms(1) show ?thesis
      using async_press_unresolved [of api c b "scan_scenes scs n"] by auto
  next
    case True
    then obtain j where j: "scan_scenes scs n = Some j" "j \<noteq> 0"
      by (cases "scan_scenes scs n") auto
    with fetched(4) assms(1) show ?thesis
      using async_press_resolved [of api c b j] by (auto split: sum.splits if_splits)
  qed
  with fetched(3) assms(2) show ?thesis by simp
next
  case (failed n err')
  then have press: "async_press api c b =
      (Inr (), [GetScenes (user_data c) (btn_device_id b),
                Log ERROR ''Error fetching scenes before execution: %s'' [ArgErr err'] False]
               @ [Log WARNING ''No scene selected to execute.'' [] False])"
    using async_press_unresolved [of api c b None] by simp
  with assms(1) have "ud = user_data c \<and> dev = btn_device_id b" by auto
  with failed(3,4) assms(2) press show ?thesis by simp
next
  case (uncaught n err')
  then have press: "async_press api c b =
      (Inl err', [GetScenes (user_data c) (btn_device_id b)])"
    by (simp add: async_press_uncaught)
  with assms(1) have "ud = user_data c \<and> dev = btn_device_id b" by auto
  with uncaught(3,4) assms(2) press show ?thesis by simp
qed

theorem press_swallows_fetch_error_witness:
  "GetScenes ''user'' ''vacuum'' \<in> set (snd (async_press
       (failing_fetch_api (RemoteError ''offline'')) (coordinator_with (Some ''B''))
       new_button)) \<and>
   get_scenes (failing_fetch_api (RemoteError ''offline'')) ''user'' ''vacuum'' =
     Inl (RemoteError ''offline'') \<and>
   is_exception (RemoteError ''offline'') \<and>
   async_press (failing_fetch_api (RemoteError ''offline'')) (coordinator_with (Some ''B''))
       new_button =
     (Inr (),
      [GetScenes ''user'' ''vacuum'',
       Log ERROR ''Error fetching scenes before execution: %s''
         [ArgErr (RemoteError ''offline'')] False,
       Log WARNING ''No scene selected to execute.'' [] False])"
proof -
  have called: "GetScenes ''user'' ''vacuum'' \<in> set (snd (async_press
       (failing_fetch_api (RemoteError ''offline'')) (coordinator_with (Some ''B''))
       new_button))"
    by (simp add: async_press_def resolve_scene_def stored_selection_def example_defs)
  have raised: "get_scenes (failing_fetch_api (RemoteError ''offline'')) ''user'' ''vacuum'' =
     Inl (RemoteError ''offline'')"
    by (simp add: example_defs)
  from press_swallows_fetch_error [OF called raised] called raised show ?thesis
    by simp
qed

text \<open>
  Claim C7. When the selected name is the name of no scene in the list just fetched,
  the scan finds no id, the press returns normally and never calls
  \<^verbatim>\<open>execute_scene\<close>; for a non-empty name it fetches and logs the warning, nothing
  else.
\<close>

theorem press_absent_name:
  assumes "stored_selection c (btn_device_id b) = Some n"
    and "get_scenes api (user_data c) (btn_device_id b) = Inr scs"
    and "n \<notin> scene_name ` set scs"
  shows "scan_scenes scs n = None \<and>
         fst (async_press api c b) = Inr () \<and>
         executed_ids (snd (async_press api c b)) = [] \<and>
         (n \<noteq> [] \<longrightarrow> snd (async_press api c b) =
            [GetScenes (user_data c) (btn_device_id b),
             Log WARNING ''No scene selected to execute.'' [] False])"
proof -
  from assms(3) have none: "scan_scenes scs n = None"
    by (simp add: scan_scenes_None_iff)
  have "resolve_scene api c b =
      (Inr None, if n = [] then [] else [GetScenes (user_data c) (btn_device_id b)])"
    using assms(1,2) none by (simp add: resolve_scene_def)
  then have "async_press api c b =
      (Inr (), (if n = [] then [] else [GetScenes (user_data c) (btn_device_id b)])
               @ [Log WARNING ''No scene selected to execute.'' [] False])"
    using async_press_unresolved [of api c b None] by simp
  with none show ?thesis by simp
qed

theorem press_absent_name_witness:
  "stored_selection (coordinator_with (Some ''Z'')) (btn_device_id new_button) = Some ''Z'' \<and>
   get_scenes (fixed_api abc_scenes) (user_data (coordinator_with (Some ''Z'')))
     (btn_device_id new_button) = Inr abc_scenes \<and>
   ''Z'' \<notin> scene_name ` set abc_scenes \<and>
   scan_scenes abc_scenes ''Z'' = None \<and>
   fst (async_press (fixed_api abc_scenes) (coordinator_with (Some ''Z'')) new_button) =
     Inr () \<and>
   executed_ids (snd (async_press (fixed_api abc_scenes) (coordinator_with (Some ''Z''))
     new_button)) = [] \<and>
   snd (async_press (fixed_api abc_scenes) (coordinator_with (Some ''Z'')) new_button) =
     [GetScenes ''user'' ''vacuum'',
      Log WARNING ''No scene selected to execute.'' [] False]"
proof -
  have sel: "stored_selection (coordinator_with (Some ''Z'')) (btn_device_id new_button) =
      Some ''Z''"
    by (simp add: stored_selection_def example_defs)
  have fetched: "get_scenes (fixed_api abc_scenes) (user_data (coordinator_with (Some ''Z'')))
     (btn_device_id new_button) = Inr abc_scenes"
    by (simp add: example_defs)
  have absent: "''Z'' \<notin> scene_name ` set abc_scenes"
    by (simp add: example_defs)
  have ids: "user_data (coordinator_with (Some ''Z'')) = ''user''"
      "btn_device_id new_button = ''vacuum''"
    by (simp_all add: example_defs)
  from press_absent_name [OF sel fetched absent] sel fetched absent show ?thesis
    by (simp add: ids)
qed

text \<open>
  Claim C8. When \<^verbatim>\<open>get_scenes\<close> raises in the fetch of \<^verbatim>\<open>async_added_to_hass\<close>,
  the method raises that exception: the selector catches nothing, and neither the
  entity nor the coordinator has changed.
\<close>

theorem added_to_hass_propagates:
  assumes "get_scenes api (user_data c) (sel_device_id e) = Inl err"
  shows "async_added_to_hass api c e =
           (Inl err, c, e, [SuperAddedToHass, GetScenes (user_data c) (sel_device_id e)])"
  using assms by (simp add: async_added_to_hass_def fetch_scenes_def)

theorem added_to_hass_propagates_witness:
  "get_scenes (failing_fetch_api (RemoteError ''offline'')) (user_data new_coordinator)
     (sel_device_id new_select) = Inl (RemoteError ''offline'') \<and>
   async_added_to_hass (failing_fetch_api (RemoteError ''offline'')) new_coordinator new_select =
     (Inl (RemoteError ''offline''), new_coordinator, new_select,
      [SuperAddedToHass, GetScenes ''user'' ''vacuum''])"
proof -
  have raised: "get_scenes (failing_fetch_api (RemoteError ''offline''))
      (user_data new_coordinator) (sel_device_id new_select) = Inl (RemoteError ''offline'')"
    by (simp add: example_defs)
  have ids: "user_data new_coordinator = ''user''" "sel_device_id new_select = ''vacuum''"
    by (simp_all add: example_defs)
  from added_to_hass_propagates [OF raised] raised show ?thesis
    by (simp add: ids)
qed

text \<open>
  Claim C9. When the fetch of a new selector (no name selected yet) answers the empty
  list, the options are empty and the current option is \<^verbatim>\<open>None\<close>. The press that
  follows only logs the warning, whatever the cloud would answer. Any later press of
  the device, whatever the coordinator holds by then, returns normally and never
  calls \<^verbatim>\<open>execute_scene\<close> as long as the list fetched again is empty.
\<close>

theorem no_scenes_trigger_noop:
  assumes "get_scenes api (user_data c) (sel_device_id e) = Inr []"
    and "selected_scenes c = Some m"
    and "selected_scene_name e = None"
    and "btn_device_id b = sel_device_id e"
    and "get_scenes api2 (user_data c2) (btn_device_id b) = Inr []"
  shows "\<exists>c' e' evs.
           fetch_scenes api c e = (Inr (), c', e', evs) \<and>
           attr_options e' = [] \<and> current_option e' = None \<and>
           async_press api1 c' b =
             (Inr (), [Log WARNING ''No scene selected to execute.'' [] False]) \<and>
           fst (async_press api2 c2 b) = Inr () \<and>
           executed_ids (snd (async_press api2 c2 b)) = []"
proof -
  let ?c' = "c\<lparr>selected_scenes := Some (m(sel_device_id e \<mapsto> None))\<rparr>"
  let ?e' = "e\<lparr>scenes := [], attr_options := []\<rparr>"
  have fetch: "fetch_scenes api c e =
      (Inr (), ?c', ?e', [GetScenes (user_data c) (sel_device_id e), WriteHaState])"
    using assms(1,2,3) by (simp add: fetch_scenes_def)
  have "\<not> truthy_name (stored_selection ?c' (btn_device_id b))"
    using assms(4) by (simp add: stored_selection_def)
  then have "resolve_scene api1 ?c' b = (Inr None, [])"
    by (rule resolve_scene_falsy)
  then have first: "async_press api1 ?c' b =
      (Inr (), [Log WARNING ''No scene selected to execute.'' [] False])"
    using async_press_unresolved [of api1 ?c' b None "[]"] by simp
  from fetch first press_empty_fetch [OF assms(5)] assms(3) show ?thesis
    by (simp add: current_option_def)
qed

theorem no_scenes_trigger_noop_witness:
  "get_scenes (fixed_api []) (user_data new_coordinator) (sel_device_id new_select) = Inr [] \<and>
   selected_scenes new_coordinator = Some Map.empty \<and>
   selected_scene_name new_select = None \<and>
   btn_device_id new_button = sel_device_id new_select \<and>
   get_scenes (fixed_api []) (user_data (coordinator_with (Some ''B'')))
     (btn_device_id new_button) = Inr [] \<and>
   (\<exists>c' e' evs.
      fetch_scenes (fixed_api []) new_coordinator new_select = (Inr (), c', e', evs) \<and>
      attr_options e' = [] \<and> current_option e' = None \<and>
      async_press (fixed_api abc_scenes) c' new_button =
        (Inr (), [Log WARNING ''No scene selected to execute.'' [] False]) \<and>
      fst (async_press (fixed_api []) (coordinator_with (Some ''B'')) new_button) = Inr () \<and>
      executed_ids (snd (async_press (fixed_api []) (coordinator_with (Some ''B''))
        new_button)) = [])"
proof -
  have h1: "get_scenes (fixed_api []) (user_data new_coordinator) (sel_device_id new_select) =
      Inr []"
    by (simp add: example_defs)
  have h2: "selected_scenes new_coordinator = Some Map.empty"
    by (simp add: example_defs)
  have h3: "selected_scene_name new_select = None"
    by (simp add: example_defs)
  have h4: "btn_device_id new_button = sel_device_id new_select"
    by (simp add: example_defs)
  have h5: "get_scenes (fixed_api []) (user_data (coordinator_with (Some ''B'')))
     (btn_device_id new_button) = Inr []"
    by (simp add: example_defs)
  from no_scenes_trigger_noop [OF h1 h2 h3 h4 h5, of "fixed_api abc_scenes"] h1 h2 h3 h4 h5
  show ?thesis by blast
qed

text \<open>
  Claim C10. After a fetch of the selector that returned normally the dictionary has
  an entry for the device, the current option. For a new selector (no name selected
  yet) and an empty list of scenes the entry is there with the value \<^verbatim>\<open>None\<close>; the
  key is not missing.
\<close>

theorem fetch_records_entry:
  assumes "fetch_scenes api c e = (Inr (), c', e', evs)"
  shows "\<exists>m'. selected_scenes c' = Some m' \<and>
           sel_device_id e \<in> dom m' \<and>
           m' (sel_device_id e) = Some (current_option e') \<and>
           (get_scenes api (user_data c) (sel_device_id e) = Inr [] \<and>
            selected_scene_name e = None \<longrightarrow>
              m' (sel_device_id e) = Some None)"
  using assms
  by (auto simp: fetch_scenes_def current_option_def Let_def
      split: sum.splits option.splits list.splits)

theorem fetch_records_entry_witness:
  "fetch_scenes (fixed_api []) new_coordinator new_select =
     (Inr (), new_coordinator\<lparr>selected_scenes := Some [''vacuum'' \<mapsto> None]\<rparr>,
      new_select, [GetScenes ''user'' ''vacuum'', WriteHaState]) \<and>
   (\<exists>m'. selected_scenes
            (new_coordinator\<lparr>selected_scenes := Some [''vacuum'' \<mapsto> None]\<rparr>) = Some m' \<and>
         ''vacuum'' \<in> dom m' \<and> m' ''vacuum'' = Some None)"
proof -
  have run: "fetch_scenes (fixed_api []) new_coordinator new_select =
     (Inr (), new_coordinator\<lparr>selected_scenes := Some [''vacuum'' \<mapsto> None]\<rparr>,
      new_select, [GetScenes ''user'' ''vacuum'', WriteHaState])"
    by (simp add: fetch_scenes_def example_defs)
  have empty: "get_scenes (fixed_api []) (user_data new_coordinator)
      (sel_device_id new_select) = Inr []"
    by (simp add: example_defs)
  have fresh: "selected_scene_name new_select = None"
    by (simp add: example_defs)
  have dev: "sel_device_id new_select = ''vacuum''"
    by (simp add: example_defs)
  from fetch_records_entry [OF run] run empty fresh dev show ?thesis
    by simp
qed

end
